theory Spec2Isabelle
  imports Complex_Main
begin

section \<open>The fitness-tracker module \<^verbatim>\<open>homework.py\<close>\<close>

text \<open>
  The module computes distance, mean speed and spent calories of a workout from sensor
  readings and formats a one-line report. Python numbers (\<^verbatim>\<open>int\<close> and
  \<^verbatim>\<open>float\<close>, which the module mixes freely and never checks) are modelled as
  \<^typ>\<open>real\<close>: the arithmetic is the exact arithmetic of the formulas. What an IEEE double
  adds to it is outside the model: rounding, signed zeros, the \<^verbatim>\<open>OverflowError\<close> of
  an \<^verbatim>\<open>int\<close> too large for a float or of a float power out of range, and the underflow of
  a quotient to \<^verbatim>\<open>0.0\<close>. Python strings are modelled as \<^typ>\<open>string\<close> holding their
  UTF-8 bytes. Exceptions are values of the type \<open>error\<close>, and a computation that may
  raise returns \<open>error + 'a\<close>.
\<close>

subsection \<open>Exceptions\<close>

datatype error =
    KeyError string
  | TypeError
  | ZeroDivisionError
  | NotImplementedError
  | AttributeError

text \<open>
  Python's \<^verbatim>\<open>x / y\<close> raises \<^verbatim>\<open>ZeroDivisionError\<close> for a zero divisor,
  where HOL's division returns 0. The divisions of the module by its own non-zero constants
  (\<^verbatim>\<open>M_IN_KM\<close>, \<^verbatim>\<open>CM_IN_M\<close>) cannot raise and are written with HOL's division.
\<close>

definition truediv :: "real \<Rightarrow> real \<Rightarrow> error + real" where
  "truediv x y = (if y = 0 then Inl ZeroDivisionError else Inr (x / y))"

subsection \<open>The report: class \<^verbatim>\<open>InfoMessage\<close>\<close>

record InfoMessage =
  training_type :: string
  duration :: real
  distance :: real
  speed :: real
  calories :: real

text \<open>
  The literal pieces of the template \<^verbatim>\<open>MESSAGE\<close>, cut at its five replacement fields.
  The Cyrillic text is given by its UTF-8 bytes. The data class declares \<^verbatim>\<open>MESSAGE\<close> as
  a sixth field with this default; the module never passes another value.
\<close>

definition MESSAGE_training_type :: string where
  "MESSAGE_training_type =
     [CHR 0xD0, CHR 0xA2, CHR 0xD0, CHR 0xB8, CHR 0xD0, CHR 0xBF, CHR 0x20, CHR 0xD1,
      CHR 0x82, CHR 0xD1, CHR 0x80, CHR 0xD0, CHR 0xB5, CHR 0xD0, CHR 0xBD, CHR 0xD0,
      CHR 0xB8, CHR 0xD1, CHR 0x80, CHR 0xD0, CHR 0xBE, CHR 0xD0, CHR 0xB2, CHR 0xD0,
      CHR 0xBA, CHR 0xD0, CHR 0xB8, CHR '':'', CHR 0x20]"

definition MESSAGE_duration :: string where
  "MESSAGE_duration =
     [CHR '';'', CHR 0x20, CHR 0xD0, CHR 0x94, CHR 0xD0, CHR 0xBB, CHR 0xD0, CHR 0xB8,
      CHR 0xD1, CHR 0x82, CHR 0xD0, CHR 0xB5, CHR 0xD0, CHR 0xBB, CHR 0xD1, CHR 0x8C,
      CHR 0xD0, CHR 0xBD, CHR 0xD0, CHR 0xBE, CHR 0xD1, CHR 0x81, CHR 0xD1, CHR 0x82,
      CHR 0xD1, CHR 0x8C, CHR '':'', CHR 0x20]"

definition MESSAGE_distance :: string where
  "MESSAGE_distance =
     [CHR 0x20, CHR 0xD1, CHR 0x87, CHR ''.'', CHR '';'', CHR 0x20, CHR 0xD0, CHR 0x94,
      CHR 0xD0, CHR 0xB8, CHR 0xD1, CHR 0x81, CHR 0xD1, CHR 0x82, CHR 0xD0, CHR 0xB0,
      CHR 0xD0, CHR 0xBD, CHR 0xD1, CHR 0x86, CHR 0xD0, CHR 0xB8, CHR 0xD1, CHR 0x8F,
      CHR '':'', CHR 0x20]"

definition MESSAGE_speed :: string where
  "MESSAGE_speed =
     [CHR 0x20, CHR 0xD0, CHR 0xBA, CHR 0xD0, CHR 0xBC, CHR '';'', CHR 0x20, CHR 0xD0,
      CHR 0xA1, CHR 0xD1, CHR 0x80, CHR ''.'', CHR 0x20, CHR 0xD1, CHR 0x81, CHR 0xD0,
      CHR 0xBA, CHR 0xD0, CHR 0xBE, CHR 0xD1, CHR 0x80, CHR 0xD0, CHR 0xBE, CHR 0xD1,
      CHR 0x81, CHR 0xD1, CHR 0x82, CHR 0xD1, CHR 0x8C, CHR '':'', CHR 0x20]"

definition MESSAGE_calories :: string where
  "MESSAGE_calories =
     [CHR 0x20, CHR 0xD0, CHR 0xBA, CHR 0xD0, CHR 0xBC, CHR ''/'', CHR 0xD1, CHR 0x87,
      CHR '';'', CHR 0x20, CHR 0xD0, CHR 0x9F, CHR 0xD0, CHR 0xBE, CHR 0xD1, CHR 0x82,
      CHR 0xD1, CHR 0x80, CHR 0xD0, CHR 0xB0, CHR 0xD1, CHR 0x87, CHR 0xD0, CHR 0xB5,
      CHR 0xD0, CHR 0xBD, CHR 0xD0, CHR 0xBE, CHR 0x20, CHR 0xD0, CHR 0xBA, CHR 0xD0,
      CHR 0xBA, CHR 0xD0, CHR 0xB0, CHR 0xD0, CHR 0xBB, CHR '':'', CHR 0x20]"

definition MESSAGE_end :: string where
  "MESSAGE_end = ''.''"

text \<open>
  The format specification \<^verbatim>\<open>:.3f\<close> prints the decimal digits of a float, three of them
  after the point, rounded from the binary value of the float. That value is not a value
  of this model, so the formatter is the parameter \<open>format_3f\<close> of \<^verbatim>\<open>get_message\<close>.
\<close>

definition get_message :: "(real \<Rightarrow> string) \<Rightarrow> InfoMessage \<Rightarrow> string" where
  "get_message format_3f self =
     MESSAGE_training_type @ training_type self
     @ MESSAGE_duration @ format_3f (InfoMessage.duration self)
     @ MESSAGE_distance @ format_3f (distance self)
     @ MESSAGE_speed @ format_3f (speed self)
     @ MESSAGE_calories @ format_3f (calories self)
     @ MESSAGE_end"

subsection \<open>The calculators: class \<^verbatim>\<open>Training\<close> and its subclasses\<close>

text \<open>
  An object of the hierarchy is its class together with the attributes its constructor
  assigns: \<^verbatim>\<open>action\<close>, \<^verbatim>\<open>duration\<close>, \<^verbatim>\<open>weight\<close>, then \<^verbatim>\<open>height\<close> for
  \<^verbatim>\<open>SportsWalking\<close> and \<^verbatim>\<open>length_pool\<close>, \<^verbatim>\<open>count_pool\<close> for \<^verbatim>\<open>Swimming\<close>.
\<close>

datatype training =
    Training (action: real) (duration: real) (weight: real)
  | Running (action: real) (duration: real) (weight: real)
  | SportsWalking (action: real) (duration: real) (weight: real) (height: real)
  | Swimming (action: real) (duration: real) (weight: real)
      (length_pool: real) (count_pool: real)

text \<open>\<^verbatim>\<open>type(self).__name__\<close>\<close>

fun class_name :: "training \<Rightarrow> string" where
  "class_name (Training _ _ _) = ''Training''"
| "class_name (Running _ _ _) = ''Running''"
| "class_name (SportsWalking _ _ _ _) = ''SportsWalking''"
| "class_name (Swimming _ _ _ _ _) = ''Swimming''"

text \<open>Class attributes. \<^verbatim>\<open>LEN_STEP\<close> is looked up through \<^verbatim>\<open>self\<close> and overridden by \<^verbatim>\<open>Swimming\<close>.\<close>

fun LEN_STEP :: "training \<Rightarrow> real" where
  "LEN_STEP (Swimming _ _ _ _ _) = 1.38"
| "LEN_STEP _ = 0.65"

definition M_IN_KM :: real where "M_IN_KM = 1000"
definition MIN_IN_H :: real where "MIN_IN_H = 60"
definition KMH_IN_MSEC :: real where "KMH_IN_MSEC = 0.278"
definition CM_IN_M :: real where "CM_IN_M = 100"

definition COEF_1 :: real where "COEF_1 = 18"
definition COEF_2 :: real where "COEF_2 = 1.79"

definition CALORIES_WEIGHT_MULTIPLIER :: real where "CALORIES_WEIGHT_MULTIPLIER = 0.035"
definition CALORIES_SPEED_HEIGHT_MULTIPLIER :: real where
  "CALORIES_SPEED_HEIGHT_MULTIPLIER = 0.029"

definition CALORIES_COTF_5 :: real where "CALORIES_COTF_5 = 1.1"
definition CALORIES_COTF_6 :: real where "CALORIES_COTF_6 = 2"

definition get_distance :: "training \<Rightarrow> real" where
  "get_distance self = action self * LEN_STEP self / M_IN_KM"

fun get_mean_speed :: "training \<Rightarrow> error + real" where
  "get_mean_speed (Swimming a d w l c) = truediv (l * c / M_IN_KM) d"
| "get_mean_speed self = truediv (get_distance self) (duration self)"

text \<open>
  In the equations below \<open>a\<close>, \<open>d\<close>, \<open>w\<close> are the attributes \<^verbatim>\<open>action\<close>,
  \<^verbatim>\<open>duration\<close>, \<^verbatim>\<open>weight\<close> of \<^verbatim>\<open>self\<close>, \<open>h\<close> is \<^verbatim>\<open>height\<close>, and \<open>l\<close>, \<open>c\<close>
  are \<^verbatim>\<open>length_pool\<close>, \<^verbatim>\<open>count_pool\<close>. The base class raises
  \<^verbatim>\<open>NotImplementedError\<close>. Operands are evaluated from left to right, so the mean speed
  is computed, and may raise, before the quotient by \<^verbatim>\<open>self.height / self.CM_IN_M\<close> is
  formed. The products, the quotients and the square are exact: the \<^verbatim>\<open>OverflowError\<close>
  that Python raises for a float power or an \<^verbatim>\<open>int\<close> beyond the range of a double, and
  a quotient that underflows to \<^verbatim>\<open>0.0\<close>, have no counterpart here.
\<close>

fun get_spent_calories :: "training \<Rightarrow> error + real" where
  "get_spent_calories (Training a d w) = Inl NotImplementedError"
| "get_spent_calories (Running a d w) =
     (case get_mean_speed (Running a d w) of
        Inl e \<Rightarrow> Inl e
      | Inr mean_speed \<Rightarrow>
          Inr ((COEF_1 * mean_speed + COEF_2) * w / M_IN_KM * (d * MIN_IN_H)))"
| "get_spent_calories (SportsWalking a d w h) =
     (case get_mean_speed (SportsWalking a d w h) of
        Inl e \<Rightarrow> Inl e
      | Inr mean_speed \<Rightarrow>
          (case truediv ((mean_speed * KMH_IN_MSEC)\<^sup>2) (h / CM_IN_M) of
             Inl e \<Rightarrow> Inl e
           | Inr q \<Rightarrow>
               Inr ((CALORIES_WEIGHT_MULTIPLIER * w
                     + q * CALORIES_SPEED_HEIGHT_MULTIPLIER * w)
                    * (d * MIN_IN_H))))"
| "get_spent_calories (Swimming a d w l c) =
     (case get_mean_speed (Swimming a d w l c) of
        Inl e \<Rightarrow> Inl e
      | Inr mean_speed \<Rightarrow>
          Inr ((mean_speed + CALORIES_COTF_5) * CALORIES_COTF_6 * w * d))"

text \<open>
  The arguments of the \<^verbatim>\<open>InfoMessage\<close> are evaluated in the order written: the mean
  speed before the calories.
\<close>

definition show_training_info :: "training \<Rightarrow> error + InfoMessage" where
  "show_training_info self =
     (case get_mean_speed self of
        Inl e \<Rightarrow> Inl e
      | Inr mean_speed \<Rightarrow>
          (case get_spent_calories self of
             Inl e \<Rightarrow> Inl e
           | Inr spent \<Rightarrow>
               Inr \<lparr>training_type = class_name self,
                    duration = training.duration self,
                    distance = get_distance self,
                    speed = mean_speed,
                    calories = spent\<rparr>))"

subsection \<open>The factory \<^verbatim>\<open>read_package\<close>\<close>

text \<open>
  The call \<^verbatim>\<open>cls(*data)\<close> binds the readings to the parameters of the constructor of the
  class by position; a list of any other length raises \<^verbatim>\<open>TypeError\<close>. \<^verbatim>\<open>Running\<close>
  inherits the constructor of \<^verbatim>\<open>Training\<close>.
\<close>

fun Running_init :: "real list \<Rightarrow> error + training" where
  "Running_init [a, d, w] = Inr (Running a d w)"
| "Running_init _ = Inl TypeError"

fun SportsWalking_init :: "real list \<Rightarrow> error + training" where
  "SportsWalking_init [a, d, w, h] = Inr (SportsWalking a d w h)"
| "SportsWalking_init _ = Inl TypeError"

fun Swimming_init :: "real list \<Rightarrow> error + training" where
  "Swimming_init [a, d, w, l, c] = Inr (Swimming a d w l c)"
| "Swimming_init _ = Inl TypeError"

definition data_of_training :: "string \<rightharpoonup> (real list \<Rightarrow> error + training)" where
  "data_of_training =
     [''SWM'' \<mapsto> Swimming_init, ''RUN'' \<mapsto> Running_init, ''WLK'' \<mapsto> SportsWalking_init]"

text \<open>The text of the \<^verbatim>\<open>KeyError\<close>, before the workout code (UTF-8 bytes).\<close>

definition KeyError_text :: string where
  "KeyError_text =
     [CHR 0xD0, CHR 0x9D, CHR 0xD0, CHR 0xB5, CHR 0x20, CHR 0xD0, CHR 0xB2, CHR 0xD0,
      CHR 0xB5, CHR 0xD1, CHR 0x80, CHR 0xD0, CHR 0xBD, CHR 0xD1, CHR 0x8B, CHR 0xD0,
      CHR 0xB9, CHR 0x20, CHR 0xD1, CHR 0x82, CHR 0xD0, CHR 0xB8, CHR 0xD0, CHR 0xBF,
      CHR 0x20, CHR 0xD1, CHR 0x82, CHR 0xD1, CHR 0x80, CHR 0xD0, CHR 0xB5, CHR 0xD0,
      CHR 0xBD, CHR 0xD0, CHR 0xB8, CHR 0xD1, CHR 0x80, CHR 0xD0, CHR 0xBE, CHR 0xD0,
      CHR 0xB2, CHR 0xD0, CHR 0xBA, CHR 0xD0, CHR 0xB8, CHR 0x20, CHR ''-'', CHR 0x20]"

text \<open>
  The membership test and the lookup of the source are one lookup here: \<open>None\<close> is
  \<^verbatim>\<open>workout_type not in data_of_training\<close>.
\<close>

definition read_package :: "string \<Rightarrow> real list \<Rightarrow> error + training" where
  "read_package workout_type data =
     (case data_of_training workout_type of
        None \<Rightarrow> Inl (KeyError (KeyError_text @ workout_type))
      | Some cls \<Rightarrow> cls data)"

subsection \<open>The entry flow\<close>

text \<open>Standard output is the list of the lines printed so far.\<close>

definition main :: "(real \<Rightarrow> string) \<Rightarrow> training \<Rightarrow> string list \<Rightarrow> error + string list" where
  "main format_3f training stdout =
     (case show_training_info training of
        Inl e \<Rightarrow> Inl e
      | Inr info \<Rightarrow> Inr (stdout @ [get_message format_3f info]))"

definition packages :: "(string \<times> real list) list" where
  "packages =
     [(''SWM'', [720, 1, 80, 25, 40]),
      (''RUN'', [15000, 1, 75]),
      (''WLK'', [9000, 1, 75, 180])]"

fun run_packages ::
  "(real \<Rightarrow> string) \<Rightarrow> (string \<times> real list) list \<Rightarrow> string list \<Rightarrow> error + string list" where
  "run_packages format_3f [] stdout = Inr stdout"
| "run_packages format_3f ((workout_type, data) # rest) stdout =
     (case read_package workout_type data of
        Inl e \<Rightarrow> Inl e
      | Inr training \<Rightarrow>
          (case main format_3f training stdout of
             Inl e \<Rightarrow> Inl e
           | Inr stdout' \<Rightarrow> run_packages format_3f rest stdout'))"

subsection \<open>Objects with mutable attributes\<close>

text \<open>
  The values of type \<open>training\<close> above are calculators as values. A Python calculator is
  an object: its class and a dictionary of instance attributes that any code holding the
  object may assign to. The module assigns attributes under six names, in its
  constructors.
\<close>

datatype pyclass = Training_class | Running_class | SportsWalking_class | Swimming_class

datatype attribute = Action | Duration | Weight | Height | Length_pool | Count_pool

record object =
  type_of :: pyclass
  attrs :: "attribute \<rightharpoonup> real"

text \<open>
  An operation on an object takes the state of \<^verbatim>\<open>self\<close> and returns its result, or the exception it
  raises, with the state it leaves. \<open>bind\<close> runs a second computation on the state the
  first one left, unless the first one raised.
\<close>

type_synonym 'a operation = "object \<Rightarrow> (error + 'a) \<times> object"

definition result :: "error + 'a \<Rightarrow> 'a operation" where
  "result r self = (r, self)"

definition bind :: "'a operation \<Rightarrow> ('a \<Rightarrow> 'b operation) \<Rightarrow> 'b operation" where
  "bind m f self =
     (case m self of
        (Inl e, self') \<Rightarrow> (Inl e, self')
      | (Inr x, self') \<Rightarrow> f x self')"

text \<open>\<^verbatim>\<open>self.name\<close>, \<^verbatim>\<open>self.name = v\<close> and \<^verbatim>\<open>type(self)\<close>.\<close>

definition getattr :: "attribute \<Rightarrow> real operation" where
  "getattr name self =
     (case attrs self name of
        None \<Rightarrow> (Inl AttributeError, self)
      | Some v \<Rightarrow> (Inr v, self))"

definition setattr :: "attribute \<Rightarrow> real \<Rightarrow> unit operation" where
  "setattr name v self = (Inr (), self\<lparr>attrs := (attrs self)(name \<mapsto> v)\<rparr>)"

definition typeof :: "pyclass operation" where
  "typeof self = (Inr (type_of self), self)"

text \<open>The class attributes \<^verbatim>\<open>__name__\<close> and \<^verbatim>\<open>LEN_STEP\<close>, by class.\<close>

fun name_of :: "pyclass \<Rightarrow> string" where
  "name_of Training_class = ''Training''"
| "name_of Running_class = ''Running''"
| "name_of SportsWalking_class = ''SportsWalking''"
| "name_of Swimming_class = ''Swimming''"

fun LEN_STEP_of :: "pyclass \<Rightarrow> real" where
  "LEN_STEP_of Swimming_class = 1.38"
| "LEN_STEP_of _ = 0.65"

text \<open>
  The constructors \<^verbatim>\<open>__init__\<close> of \<^verbatim>\<open>Training\<close> (inherited by \<^verbatim>\<open>Running\<close>),
  \<^verbatim>\<open>SportsWalking\<close> and \<^verbatim>\<open>Swimming\<close>: the only assignments of the module. The last two
  call the first through \<^verbatim>\<open>super()\<close>.
\<close>

definition init_Training :: "real \<Rightarrow> real \<Rightarrow> real \<Rightarrow> unit operation" where
  "init_Training a d w =
     bind (setattr Action a) (\<lambda>_.
     bind (setattr Duration d) (\<lambda>_.
     setattr Weight w))"

definition init_SportsWalking :: "real \<Rightarrow> real \<Rightarrow> real \<Rightarrow> real \<Rightarrow> unit operation" where
  "init_SportsWalking a d w h =
     bind (init_Training a d w) (\<lambda>_.
     setattr Height h)"

definition init_Swimming :: "real \<Rightarrow> real \<Rightarrow> real \<Rightarrow> real \<Rightarrow> real \<Rightarrow> unit operation" where
  "init_Swimming a d w l c =
     bind (init_Training a d w) (\<lambda>_.
     bind (setattr Length_pool l) (\<lambda>_.
     setattr Count_pool c))"

text \<open>
  The call \<^verbatim>\<open>cls(*data)\<close>: a new object of the class, without attributes, on which the
  constructor runs.
\<close>

definition new :: "pyclass \<Rightarrow> object" where
  "new cls = \<lparr>type_of = cls, attrs = Map.empty\<rparr>"

fun instantiate :: "pyclass \<Rightarrow> real list \<Rightarrow> error + object" where
  "instantiate Training_class [a, d, w] =
     Inr (snd (init_Training a d w (new Training_class)))"
| "instantiate Running_class [a, d, w] =
     Inr (snd (init_Training a d w (new Running_class)))"
| "instantiate SportsWalking_class [a, d, w, h] =
     Inr (snd (init_SportsWalking a d w h (new SportsWalking_class)))"
| "instantiate Swimming_class [a, d, w, l, c] =
     Inr (snd (init_Swimming a d w l c (new Swimming_class)))"
| "instantiate _ _ = Inl TypeError"

text \<open>
  The method bodies, statement by statement, each under the name of the class that defines
  it. \<open>call_get_distance\<close> and the other \<open>call_\<close> functions are the calls through
  \<^verbatim>\<open>self\<close>: they run the body of the class of the object, or the inherited one.
\<close>

definition Training_get_distance :: "real operation" where
  "Training_get_distance =
     bind (getattr Action) (\<lambda>a.
     bind typeof (\<lambda>cls.
     result (Inr (a * LEN_STEP_of cls / M_IN_KM))))"

definition call_get_distance :: "real operation" where
  "call_get_distance = Training_get_distance"

definition Training_get_mean_speed :: "real operation" where
  "Training_get_mean_speed =
     bind call_get_distance (\<lambda>dist.
     bind (getattr Duration) (\<lambda>d.
     result (truediv dist d)))"

definition Swimming_get_mean_speed :: "real operation" where
  "Swimming_get_mean_speed =
     bind (getattr Length_pool) (\<lambda>l.
     bind (getattr Count_pool) (\<lambda>c.
     bind (getattr Duration) (\<lambda>d.
     result (truediv (l * c / M_IN_KM) d))))"

definition call_get_mean_speed :: "real operation" where
  "call_get_mean_speed self =
     (case type_of self of
        Swimming_class \<Rightarrow> Swimming_get_mean_speed self
      | _ \<Rightarrow> Training_get_mean_speed self)"

definition Training_get_spent_calories :: "real operation" where
  "Training_get_spent_calories = result (Inl NotImplementedError)"

definition Running_get_spent_calories :: "real operation" where
  "Running_get_spent_calories =
     bind call_get_mean_speed (\<lambda>mean_speed.
     bind (getattr Weight) (\<lambda>w.
     bind (getattr Duration) (\<lambda>d.
     result (Inr ((COEF_1 * mean_speed + COEF_2) * w / M_IN_KM * (d * MIN_IN_H))))))"

definition SportsWalking_get_spent_calories :: "real operation" where
  "SportsWalking_get_spent_calories =
     bind (getattr Weight) (\<lambda>w.
     bind call_get_mean_speed (\<lambda>mean_speed.
     bind (getattr Height) (\<lambda>h.
     bind (result (truediv ((mean_speed * KMH_IN_MSEC)\<^sup>2) (h / CM_IN_M))) (\<lambda>q.
     bind (getattr Weight) (\<lambda>w'.
     bind (getattr Duration) (\<lambda>d.
     result (Inr ((CALORIES_WEIGHT_MULTIPLIER * w
                   + q * CALORIES_SPEED_HEIGHT_MULTIPLIER * w')
                  * (d * MIN_IN_H)))))))))"

definition Swimming_get_spent_calories :: "real operation" where
  "Swimming_get_spent_calories =
     bind call_get_mean_speed (\<lambda>mean_speed.
     bind (getattr Weight) (\<lambda>w.
     bind (getattr Duration) (\<lambda>d.
     result (Inr ((mean_speed + CALORIES_COTF_5) * CALORIES_COTF_6 * w * d)))))"

definition call_get_spent_calories :: "real operation" where
  "call_get_spent_calories self =
     (case type_of self of
        Training_class \<Rightarrow> Training_get_spent_calories self
      | Running_class \<Rightarrow> Running_get_spent_calories self
      | SportsWalking_class \<Rightarrow> SportsWalking_get_spent_calories self
      | Swimming_class \<Rightarrow> Swimming_get_spent_calories self)"

definition Training_show_training_info :: "InfoMessage operation" where
  "Training_show_training_info =
     bind typeof (\<lambda>cls.
     bind (getattr Duration) (\<lambda>d.
     bind call_get_distance (\<lambda>dist.
     bind call_get_mean_speed (\<lambda>mean_speed.
     bind call_get_spent_calories (\<lambda>spent.
     result (Inr \<lparr>training_type = name_of cls, duration = d, distance = dist,
                  speed = mean_speed, calories = spent\<rparr>))))))"

definition call_show_training_info :: "InfoMessage operation" where
  "call_show_training_info = Training_show_training_info"

text \<open>
  The report formatter: \<^verbatim>\<open>show_training_info\<close> on the calculator, then
  \<^verbatim>\<open>get_message\<close> on the \<^verbatim>\<open>InfoMessage\<close> it returned, a new object that holds numbers
  and a string and no reference to the calculator.
\<close>

definition report :: "(real \<Rightarrow> string) \<Rightarrow> string operation" where
  "report format_3f =
     bind call_show_training_info (\<lambda>info.
     result (Inr (get_message format_3f info)))"

text \<open>The object a constructor builds for a calculator value.\<close>

fun object_of :: "training \<Rightarrow> object" where
  "object_of (Training a d w) =
     \<lparr>type_of = Training_class, attrs = [Action \<mapsto> a, Duration \<mapsto> d, Weight \<mapsto> w]\<rparr>"
| "object_of (Running a d w) =
     \<lparr>type_of = Running_class, attrs = [Action \<mapsto> a, Duration \<mapsto> d, Weight \<mapsto> w]\<rparr>"
| "object_of (SportsWalking a d w h) =
     \<lparr>type_of = SportsWalking_class,
      attrs = [Action \<mapsto> a, Duration \<mapsto> d, Weight \<mapsto> w, Height \<mapsto> h]\<rparr>"
| "object_of (Swimming a d w l c) =
     \<lparr>type_of = Swimming_class,
      attrs = [Action \<mapsto> a, Duration \<mapsto> d, Weight \<mapsto> w, Length_pool \<mapsto> l,
               Count_pool \<mapsto> c]\<rparr>"

subsection \<open>Reading the spec's \<open>\<approx>\<close>\<close>

text \<open>
  A computation returns about \<open>v\<close>, for a value \<open>v\<close> given to two decimals, when it returns
  a number within half a unit of the second decimal of \<open>v\<close>.
\<close>

definition returns_about :: "error + real \<Rightarrow> real \<Rightarrow> bool" where
  "returns_about r v = (case r of Inl e \<Rightarrow> False | Inr x \<Rightarrow> \<bar>x - v\<bar> \<le> 0.005)"

section \<open>Properties\<close>

lemmas class_constants =
  M_IN_KM_def MIN_IN_H_def KMH_IN_MSEC_def CM_IN_M_def COEF_1_def COEF_2_def
  CALORIES_WEIGHT_MULTIPLIER_def CALORIES_SPEED_HEIGHT_MULTIPLIER_def
  CALORIES_COTF_5_def CALORIES_COTF_6_def

subsection \<open>Evaluation lemmas\<close>

text \<open>The three packages of the script, through the factory and the calculators.\<close>

lemma packages_info:
  "read_package ''SWM'' [720, 1, 80, 25, 40] = Inr (Swimming 720 1 80 25 40)"
  "read_package ''RUN'' [15000, 1, 75] = Inr (Running 15000 1 75)"
  "read_package ''WLK'' [9000, 1, 75, 180] = Inr (SportsWalking 9000 1 75 180)"
  "show_training_info (Swimming 720 1 80 25 40)
     = Inr \<lparr>training_type = ''Swimming'', duration = 1, distance = 0.9936,
            speed = 1, calories = 336\<rparr>"
  "show_training_info (Running 15000 1 75)
     = Inr \<lparr>training_type = ''Running'', duration = 1, distance = 9.75,
            speed = 9.75, calories = 797.805\<rparr>"
  "show_training_info (SportsWalking 9000 1 75 180)
     = Inr \<lparr>training_type = ''SportsWalking'', duration = 1, distance = 5.85,
            speed = 5.85, calories = 349.251747525\<rparr>"
  by (simp_all add: read_package_def data_of_training_def show_training_info_def
        get_distance_def truediv_def class_constants power2_eq_square)

text \<open>What the script prints, for any formatter of the numbers.\<close>

lemma run_packages_output:
  "run_packages format_3f packages [] =
     Inr [MESSAGE_training_type @ ''Swimming'' @ MESSAGE_duration @ format_3f 1
            @ MESSAGE_distance @ format_3f 0.9936 @ MESSAGE_speed @ format_3f 1
            @ MESSAGE_calories @ format_3f 336 @ MESSAGE_end,
          MESSAGE_training_type @ ''Running'' @ MESSAGE_duration @ format_3f 1
            @ MESSAGE_distance @ format_3f 9.75 @ MESSAGE_speed @ format_3f 9.75
            @ MESSAGE_calories @ format_3f 797.805 @ MESSAGE_end,
          MESSAGE_training_type @ ''SportsWalking'' @ MESSAGE_duration @ format_3f 1
            @ MESSAGE_distance @ format_3f 5.85 @ MESSAGE_speed @ format_3f 5.85
            @ MESSAGE_calories @ format_3f 349.251747525 @ MESSAGE_end]"
  by (simp add: packages_def packages_info main_def get_message_def)

subsection \<open>The factory and the label of the report\<close>

lemma Running_init_class:
  "Running_init data = Inr self \<Longrightarrow> class_name self = ''Running''"
  by (cases data rule: Running_init.cases) auto

lemma SportsWalking_init_class:
  "SportsWalking_init data = Inr self \<Longrightarrow> class_name self = ''SportsWalking''"
  by (cases data rule: SportsWalking_init.cases) auto

lemma Swimming_init_class:
  "Swimming_init data = Inr self \<Longrightarrow> class_name self = ''Swimming''"
  by (cases data rule: Swimming_init.cases) auto

lemma read_package_class:
  assumes "read_package workout_type data = Inr self"
  shows "(workout_type, class_name self)
         \<in> {(''SWM'', ''Swimming''), (''RUN'', ''Running''), (''WLK'', ''SportsWalking'')}"
proof -
  consider (swm) "workout_type = ''SWM''" | (run) "workout_type = ''RUN''"
    | (wlk) "workout_type = ''WLK''" | (other) "data_of_training workout_type = None"
    by (cases "workout_type = ''SWM''"; cases "workout_type = ''RUN''";
        cases "workout_type = ''WLK''") (simp_all add: data_of_training_def)
  then show ?thesis
  proof cases
    case swm
    with assms have "Swimming_init data = Inr self"
      by (simp add: read_package_def data_of_training_def)
    with swm show ?thesis by (simp add: Swimming_init_class)
  next
    case run
    with assms have "Running_init data = Inr self"
      by (simp add: read_package_def data_of_training_def)
    with run show ?thesis by (simp add: Running_init_class)
  next
    case wlk
    with assms have "SportsWalking_init data = Inr self"
      by (simp add: read_package_def data_of_training_def)
    with wlk show ?thesis by (simp add: SportsWalking_init_class)
  next
    case other
    with assms show ?thesis by (simp add: read_package_def)
  qed
qed

lemma show_training_info_type:
  "show_training_info self = Inr info \<Longrightarrow> training_type info = class_name self"
  by (auto simp: show_training_info_def split: sum.splits)

subsection \<open>Method calls and the state of the object\<close>

text \<open>
  A computation keeps the state when it returns the object it was given. Reading an
  attribute keeps it, and sequencing keeps it when both parts do; an assignment does not.
\<close>

lemma result_state: "snd (result r self) = self"
  by (simp add: result_def)

lemma getattr_state: "snd (getattr name self) = self"
  by (simp add: getattr_def split: option.split)

lemma typeof_state: "snd (typeof self) = self"
  by (simp add: typeof_def)

lemma bind_state:
  assumes "\<And>s. snd (m s) = s" and "\<And>x s. snd (f x s) = s"
  shows "snd (bind m f self) = self"
proof (cases "m self")
  case (Pair r s')
  with assms(1) [of self] have s': "s' = self" by simp
  show ?thesis
  proof (cases r)
    case (Inl e)
    with Pair s' show ?thesis by (simp add: bind_def)
  next
    case (Inr x)
    with Pair s' assms(2) [of x self] show ?thesis by (simp add: bind_def)
  qed
qed

lemma setattr_state: "attrs self name \<noteq> Some v \<Longrightarrow> snd (setattr name v self) \<noteq> self"
proof
  assume new: "attrs self name \<noteq> Some v" and same: "snd (setattr name v self) = self"
  from same have "attrs (snd (setattr name v self)) name = attrs self name" by simp
  then have "attrs self name = Some v" by (simp add: setattr_def)
  with new show False by simp
qed

lemma init_Training_state: "snd (init_Training a d w (new cls)) \<noteq> new cls"
proof
  assume "snd (init_Training a d w (new cls)) = new cls"
  then have "attrs (snd (init_Training a d w (new cls))) Weight = attrs (new cls) Weight"
    by simp
  then show False
    by (simp add: init_Training_def bind_def setattr_def new_def)
qed

lemma Training_get_distance_state: "snd (Training_get_distance self) = self"
  unfolding Training_get_distance_def
  by (rule bind_state getattr_state typeof_state result_state)+

lemma call_get_distance_state: "snd (call_get_distance self) = self"
  by (simp add: call_get_distance_def Training_get_distance_state)

lemma Training_get_mean_speed_state: "snd (Training_get_mean_speed self) = self"
  unfolding Training_get_mean_speed_def
  by (rule bind_state call_get_distance_state getattr_state result_state)+

lemma Swimming_get_mean_speed_state: "snd (Swimming_get_mean_speed self) = self"
  unfolding Swimming_get_mean_speed_def
  by (rule bind_state getattr_state result_state)+

lemma call_get_mean_speed_state: "snd (call_get_mean_speed self) = self"
  by (simp add: call_get_mean_speed_def Training_get_mean_speed_state
        Swimming_get_mean_speed_state split: pyclass.split)

lemma Training_get_spent_calories_state: "snd (Training_get_spent_calories self) = self"
  by (simp add: Training_get_spent_calories_def result_state)

lemma Running_get_spent_calories_state: "snd (Running_get_spent_calories self) = self"
  unfolding Running_get_spent_calories_def
  by (rule bind_state call_get_mean_speed_state getattr_state result_state)+

lemma SportsWalking_get_spent_calories_state:
  "snd (SportsWalking_get_spent_calories self) = self"
  unfolding SportsWalking_get_spent_calories_def
  by (rule bind_state call_get_mean_speed_state getattr_state result_state)+

lemma Swimming_get_spent_calories_state: "snd (Swimming_get_spent_calories self) = self"
  unfolding Swimming_get_spent_calories_def
  by (rule bind_state call_get_mean_speed_state getattr_state result_state)+

lemma call_get_spent_calories_state: "snd (call_get_spent_calories self) = self"
  by (simp add: call_get_spent_calories_def Training_get_spent_calories_state
        Running_get_spent_calories_state SportsWalking_get_spent_calories_state
        Swimming_get_spent_calories_state split: pyclass.split)

lemma call_show_training_info_state: "snd (call_show_training_info self) = self"
  unfolding call_show_training_info_def Training_show_training_info_def
  by (rule bind_state typeof_state getattr_state call_get_distance_state
        call_get_mean_speed_state call_get_spent_calories_state result_state)+

lemma report_state: "snd (report format_3f self) = self"
  unfolding report_def
  by (rule bind_state call_show_training_info_state result_state)+

text \<open>
  The objects the constructors build are the calculator values, and on them the method
  bodies compute what the functions on calculator values compute.
\<close>

lemma instantiate_object_of:
  "instantiate Training_class [a, d, w] = Inr (object_of (Training a d w))"
  "instantiate Running_class [a, d, w] = Inr (object_of (Running a d w))"
  "instantiate SportsWalking_class [a, d, w, h] = Inr (object_of (SportsWalking a d w h))"
  "instantiate Swimming_class [a, d, w, l, c] = Inr (object_of (Swimming a d w l c))"
  by (simp_all add: init_Training_def init_SportsWalking_def init_Swimming_def
        bind_def setattr_def new_def)

lemmas method_defs =
  bind_def result_def getattr_def typeof_def call_get_distance_def Training_get_distance_def
  call_get_mean_speed_def Training_get_mean_speed_def Swimming_get_mean_speed_def
  call_get_spent_calories_def Training_get_spent_calories_def
  Running_get_spent_calories_def SportsWalking_get_spent_calories_def
  Swimming_get_spent_calories_def

lemma call_get_distance_object_of:
  "call_get_distance (object_of t) = (Inr (get_distance t), object_of t)"
  by (cases t) (simp_all add: method_defs get_distance_def)

lemma call_get_mean_speed_object_of:
  "call_get_mean_speed (object_of t) = (get_mean_speed t, object_of t)"
  by (cases t) (simp_all add: method_defs get_distance_def)

lemma call_get_spent_calories_object_of:
  "call_get_spent_calories (object_of t) = (get_spent_calories t, object_of t)"
  by (cases t)
    (simp_all add: method_defs get_distance_def truediv_def split: sum.split)

lemma name_of_object_of: "name_of (type_of (object_of t)) = class_name t"
  by (cases t) simp_all

lemma duration_object_of: "getattr Duration (object_of t) = (Inr (duration t), object_of t)"
  by (cases t) (simp_all add: getattr_def)

lemma call_show_training_info_object_of:
  "call_show_training_info (object_of t) = (show_training_info t, object_of t)"
  by (simp add: call_show_training_info_def Training_show_training_info_def bind_def
        typeof_def result_def duration_object_of call_get_distance_object_of
        call_get_mean_speed_object_of call_get_spent_calories_object_of
        name_of_object_of show_training_info_def split: sum.split)

lemma report_object_of:
  "report format_3f (object_of t)
     = (case show_training_info t of
          Inl e \<Rightarrow> Inl e
        | Inr info \<Rightarrow> Inr (get_message format_3f info),
        object_of t)"
  by (simp add: report_def bind_def result_def call_show_training_info_object_of
        split: sum.split)

text \<open>The report of the swimming package of the script, for any formatter of the numbers.\<close>

lemma report_swimming_package:
  "report format_3f (object_of (Swimming 720 1 80 25 40))
     = (Inr (MESSAGE_training_type @ ''Swimming'' @ MESSAGE_duration @ format_3f 1
             @ MESSAGE_distance @ format_3f 0.9936 @ MESSAGE_speed @ format_3f 1
             @ MESSAGE_calories @ format_3f 336 @ MESSAGE_end),
        object_of (Swimming 720 1 80 25 40))"
  by (simp only: report_object_of packages_info) (simp add: get_message_def)

subsection \<open>The claims\<close>

text \<open>
  C1 (as the code has it). The running calculator built from action 15000, duration 1 and
  weight 75 returns the distance 9.75 km and the mean speed 9.75 km/h, and its spent
  calories are \<open>(18 \<times> 9.75 + 1.79) \<times> 75 / 1000 \<times> 60\<close>, which is 797.805.
\<close>

theorem running_example:
  "get_distance (Running 15000 1 75) = 9.75
   \<and> get_mean_speed (Running 15000 1 75) = Inr 9.75
   \<and> get_spent_calories (Running 15000 1 75) = Inr ((18 * 9.75 + 1.79) * 75 / 1000 * 60)
   \<and> get_spent_calories (Running 15000 1 75) = Inr 797.805"
  by (simp add: get_distance_def truediv_def class_constants)

text \<open>
  C1 as stated gives the calories as about 841.08. The expression it quotes is the one
  the code evaluates, but its value is 797.805, more than 43 away.
\<close>

theorem running_example_counterexample:
  "\<not> (get_distance (Running 15000 1 75) = 9.75
      \<and> get_mean_speed (Running 15000 1 75) = Inr 9.75
      \<and> returns_about (get_spent_calories (Running 15000 1 75)) 841.08)"
  by (simp add: get_distance_def truediv_def class_constants returns_about_def)

text \<open>
  C2 (as the code has it). For the base, running and walking calculators the mean speed is
  \<^verbatim>\<open>get_distance()\<close> divided by the duration. For the swimming calculator it is the
  pool distance \<open>length_pool \<times> count_pool / 1000\<close> divided by the duration, and the pool
  distance is not what \<^verbatim>\<open>get_distance()\<close> returns.
\<close>

theorem mean_speed_by_variant:
  "get_mean_speed (Training a d w) = truediv (get_distance (Training a d w)) d
   \<and> get_mean_speed (Running a d w) = truediv (get_distance (Running a d w)) d
   \<and> get_mean_speed (SportsWalking a d w h) = truediv (get_distance (SportsWalking a d w h)) d
   \<and> get_mean_speed (Swimming a d w l c) = truediv (l * c / 1000) d"
  by (simp add: M_IN_KM_def)

text \<open>
  C2 as stated fails for swimming: with 720 strokes in one hour over 40 lengths of a 25 m
  pool, \<^verbatim>\<open>get_distance()\<close> is 0.9936 km and the mean speed is 1 km/h.
\<close>

theorem mean_speed_counterexample:
  "get_mean_speed (Swimming 720 1 80 25 40)
   \<noteq> truediv (get_distance (Swimming 720 1 80 25 40)) (duration (Swimming 720 1 80 25 40))"
  by (simp add: get_distance_def truediv_def class_constants)

text \<open>
  C3. For every workout code outside SWM, RUN, WLK the factory raises its invalid-code
  error (a \<^verbatim>\<open>KeyError\<close> whose text ends with the code), whatever the readings. For each
  of the three codes it returns the matching variant, the readings assigned to the
  parameters of its constructor by position.
\<close>

theorem read_package_dispatch:
  "(workout_type \<notin> {''SWM'', ''RUN'', ''WLK''} \<longrightarrow>
      read_package workout_type data = Inl (KeyError (KeyError_text @ workout_type)))
   \<and> read_package ''SWM'' [a, d, w, l, c] = Inr (Swimming a d w l c)
   \<and> read_package ''RUN'' [a, d, w] = Inr (Running a d w)
   \<and> read_package ''WLK'' [a, d, w, h] = Inr (SportsWalking a d w h)"
  by (simp add: read_package_def data_of_training_def)

text \<open>The code XYZ of the spec.\<close>

theorem read_package_dispatch_witness:
  "''XYZ'' \<notin> {''SWM'', ''RUN'', ''WLK''}
   \<and> read_package ''XYZ'' [15000, 1, 75] = Inl (KeyError (KeyError_text @ ''XYZ''))"
  using read_package_dispatch [of "''XYZ''" "[15000, 1, 75]"] by simp

text \<open>
  C4. The mean speed of a swimming calculator is
  \<open>length_pool \<times> count_pool / 1000 / duration\<close> (a division by zero for the duration 0); it
  does not depend on the action count; for a 25 m pool, 40 lengths and duration 1 it is
  exactly 1 km/h for every action count.
\<close>

theorem swimming_mean_speed:
  "get_mean_speed (Swimming a d w l c)
     = (if d = 0 then Inl ZeroDivisionError else Inr (l * c / 1000 / d))
   \<and> get_mean_speed (Swimming a d w l c) = get_mean_speed (Swimming a' d w l c)
   \<and> get_mean_speed (Swimming a 1 w 25 40) = Inr 1"
  by (simp add: truediv_def M_IN_KM_def)

text \<open>
  C5. The spent calories of a swimming calculator are
  \<open>(mean_speed + 1.1) \<times> 2 \<times> weight \<times> duration\<close>; for action 720, duration 1, weight 80,
  pool length 25 and pool count 40 they are 336.
\<close>

theorem swimming_calories:
  "(get_mean_speed (Swimming a d w l c) = Inr mean_speed \<longrightarrow>
      get_spent_calories (Swimming a d w l c) = Inr ((mean_speed + 1.1) * 2 * w * d))
   \<and> get_spent_calories (Swimming 720 1 80 25 40) = Inr 336"
  by (simp add: truediv_def class_constants)

theorem swimming_calories_witness:
  "get_mean_speed (Swimming 720 1 80 25 40) = Inr 1
   \<and> get_spent_calories (Swimming 720 1 80 25 40) = Inr ((1 + 1.1) * 2 * 80 * 1)"
  using swimming_calories [of 720 1 80 25 40 1] by (simp add: truediv_def M_IN_KM_def)

text \<open>
  C6. The spent calories of a sports-walking calculator are
  \<open>[0.035 \<times> weight + ((mean_speed \<times> 0.278)\<^sup>2 / (height / 100)) \<times> 0.029 \<times> weight]
  \<times> (duration \<times> 60)\<close>, wherever the mean speed and the quotient by the height exist.
\<close>

theorem walking_calories:
  "get_mean_speed (SportsWalking a d w h) = Inr mean_speed \<Longrightarrow> h \<noteq> 0 \<Longrightarrow>
   get_spent_calories (SportsWalking a d w h)
     = Inr ((0.035 * w + ((mean_speed * 0.278)\<^sup>2 / (h / 100)) * 0.029 * w) * (d * 60))"
  by (simp add: truediv_def class_constants)

text \<open>The walking package of the script: 9000 steps, one hour, 75 kg, 180 cm.\<close>

theorem walking_calories_witness:
  "get_mean_speed (SportsWalking 9000 1 75 180) = Inr 5.85 \<and> (180::real) \<noteq> 0
   \<and> get_spent_calories (SportsWalking 9000 1 75 180)
       = Inr ((0.035 * 75 + ((5.85 * 0.278)\<^sup>2 / (180 / 100)) * 0.029 * 75) * (1 * 60))"
proof -
  have s: "get_mean_speed (SportsWalking 9000 1 75 180) = Inr 5.85"
    by (simp add: get_distance_def truediv_def M_IN_KM_def)
  have h: "(180::real) \<noteq> 0" by simp
  show ?thesis using s h walking_calories [OF s h] by simp
qed

text \<open>
  C7. \<^verbatim>\<open>get_distance()\<close> is \<open>action \<times> 0.65 / 1000\<close> for the base, running and walking
  calculators and \<open>action \<times> 1.38 / 1000\<close> for the swimming calculator; a walk of 9000 steps
  is 5.85 km, and 5.85 km/h when it lasts one hour.
\<close>

theorem distance_by_variant:
  "get_distance (Training a d w) = a * 0.65 / 1000
   \<and> get_distance (Running a d w) = a * 0.65 / 1000
   \<and> get_distance (SportsWalking a d w h) = a * 0.65 / 1000
   \<and> get_distance (Swimming a d w l c) = a * 1.38 / 1000
   \<and> get_distance (SportsWalking 9000 d w h) = 5.85
   \<and> get_mean_speed (SportsWalking 9000 1 w h) = Inr 5.85"
  by (simp add: get_distance_def truediv_def M_IN_KM_def)

text \<open>
  C8. Every operation on a calculator (distance, mean speed, calories, building the report,
  formatting it) leaves the calculator, an object with assignable attributes in any state,
  as it found it: the method bodies read attributes and assign none. So the report
  formatter invoked a second time, on the object the first invocation left, yields the
  same outcome: the same string, or the same exception.
\<close>

theorem report_idempotent:
  "snd (call_get_distance self) = self
   \<and> snd (call_get_mean_speed self) = self
   \<and> snd (call_get_spent_calories self) = self
   \<and> snd (call_show_training_info self) = self
   \<and> snd (report format_3f self) = self
   \<and> fst (report format_3f (snd (report format_3f self))) = fst (report format_3f self)"
  by (simp add: call_get_distance_state call_get_mean_speed_state
        call_get_spent_calories_state call_show_training_info_state report_state)

text \<open>
  C9 (as the code has it, in exact arithmetic). With every number taken as a real, so away
  from the overflow and the underflow of Python's floats: for a duration above 0 the mean
  speed exists for every variant, and so do the calories and the report of the running and
  swimming variants, and those of the walking variant when the height is not 0 (the
  calories and the report of the base class raise \<^verbatim>\<open>NotImplementedError\<close>). For the
  duration 0 the mean speed and the report of every variant, and the calories of the
  running, walking and swimming variants, raise \<^verbatim>\<open>ZeroDivisionError\<close>: nothing guards
  the duration.
\<close>

theorem duration_guard:
  "0 < d \<Longrightarrow>
   \<not> isl (get_mean_speed (Training a d w))
   \<and> \<not> isl (get_mean_speed (Running a d w))
   \<and> \<not> isl (get_mean_speed (SportsWalking a d w h))
   \<and> \<not> isl (get_mean_speed (Swimming a d w l c))
   \<and> \<not> isl (get_spent_calories (Running a d w))
   \<and> \<not> isl (get_spent_calories (Swimming a d w l c))
   \<and> \<not> isl (show_training_info (Running a d w))
   \<and> \<not> isl (show_training_info (Swimming a d w l c))
   \<and> (h \<noteq> 0 \<longrightarrow> \<not> isl (get_spent_calories (SportsWalking a d w h))
                 \<and> \<not> isl (show_training_info (SportsWalking a d w h)))
   \<and> get_spent_calories (Training a d w) = Inl NotImplementedError
   \<and> show_training_info (Training a d w) = Inl NotImplementedError
   \<and> get_mean_speed (Training a 0 w) = Inl ZeroDivisionError
   \<and> get_mean_speed (Running a 0 w) = Inl ZeroDivisionError
   \<and> get_mean_speed (SportsWalking a 0 w h) = Inl ZeroDivisionError
   \<and> get_mean_speed (Swimming a 0 w l c) = Inl ZeroDivisionError
   \<and> get_spent_calories (Running a 0 w) = Inl ZeroDivisionError
   \<and> get_spent_calories (SportsWalking a 0 w h) = Inl ZeroDivisionError
   \<and> get_spent_calories (Swimming a 0 w l c) = Inl ZeroDivisionError
   \<and> show_training_info (Training a 0 w) = Inl ZeroDivisionError
   \<and> show_training_info (Running a 0 w) = Inl ZeroDivisionError
   \<and> show_training_info (SportsWalking a 0 w h) = Inl ZeroDivisionError
   \<and> show_training_info (Swimming a 0 w l c) = Inl ZeroDivisionError"
  by (simp add: show_training_info_def truediv_def class_constants)

text \<open>The walking package of the script has a duration above 0 and a height other than 0.\<close>

theorem duration_guard_witness:
  "(0::real) < 1 \<and> (180::real) \<noteq> 0
   \<and> \<not> isl (get_mean_speed (SportsWalking 9000 1 75 180))
   \<and> \<not> isl (get_spent_calories (SportsWalking 9000 1 75 180))
   \<and> \<not> isl (show_training_info (SportsWalking 9000 1 75 180))
   \<and> get_mean_speed (SportsWalking 9000 0 75 180) = Inl ZeroDivisionError"
proof -
  have d: "(0::real) < 1" by simp
  have h: "(180::real) \<noteq> 0" by simp
  show ?thesis using d h duration_guard [OF d, of 9000 75 180] by simp
qed

text \<open>
  C9 as stated promises every calorie computation under a duration above 0. A walking
  calculator of height 0 and duration 1 has a mean speed, and its calories raise
  \<^verbatim>\<open>ZeroDivisionError\<close>.
\<close>

theorem duration_guard_counterexample:
  "\<not> (0 < duration (SportsWalking 9000 1 75 0)
        \<longrightarrow> \<not> isl (get_spent_calories (SportsWalking 9000 1 75 0)))"
  by (simp add: get_distance_def truediv_def class_constants)

text \<open>
  C10. For readings with a duration other than 0 (and a height other than 0 for walking)
  the factory returns a calculator whose report exists and carries the name of its class
  as training type: Swimming for the code SWM, Running for RUN, SportsWalking for WLK. And
  whatever the code and the readings, the training type of the report of a calculator the
  factory returned is the name of its class, paired with the code as above, and never the
  code.
\<close>

theorem report_label:
  assumes "d \<noteq> 0" and "h \<noteq> 0"
  shows "(\<exists>self info. read_package ''SWM'' [a, d, w, l, c] = Inr self
            \<and> show_training_info self = Inr info \<and> training_type info = ''Swimming'')
   \<and> (\<exists>self info. read_package ''RUN'' [a, d, w] = Inr self
            \<and> show_training_info self = Inr info \<and> training_type info = ''Running'')
   \<and> (\<exists>self info. read_package ''WLK'' [a, d, w, h] = Inr self
            \<and> show_training_info self = Inr info \<and> training_type info = ''SportsWalking'')
   \<and> (\<forall>workout_type data self info.
         read_package workout_type data = Inr self \<and> show_training_info self = Inr info \<longrightarrow>
         training_type info = class_name self
         \<and> training_type info \<noteq> workout_type
         \<and> (workout_type, training_type info)
             \<in> {(''SWM'', ''Swimming''), (''RUN'', ''Running''), (''WLK'', ''SportsWalking'')})"
proof -
  have swm: "\<exists>self info. read_package ''SWM'' [a, d, w, l, c] = Inr self
      \<and> show_training_info self = Inr info \<and> training_type info = ''Swimming''"
    using assms(1)
    by (simp add: read_package_def data_of_training_def show_training_info_def truediv_def)
  have run: "\<exists>self info. read_package ''RUN'' [a, d, w] = Inr self
      \<and> show_training_info self = Inr info \<and> training_type info = ''Running''"
    using assms(1)
    by (simp add: read_package_def data_of_training_def show_training_info_def truediv_def)
  have wlk: "\<exists>self info. read_package ''WLK'' [a, d, w, h] = Inr self
      \<and> show_training_info self = Inr info \<and> training_type info = ''SportsWalking''"
    using assms
    by (simp add: read_package_def data_of_training_def show_training_info_def truediv_def
          CM_IN_M_def)
  have every: "training_type info = class_name self
         \<and> training_type info \<noteq> workout_type
         \<and> (workout_type, training_type info)
             \<in> {(''SWM'', ''Swimming''), (''RUN'', ''Running''), (''WLK'', ''SportsWalking'')}"
    if r: "read_package workout_type data = Inr self"
      and i: "show_training_info self = Inr info"
    for workout_type data self info
  proof -
    have t: "training_type info = class_name self"
      using i by (rule show_training_info_type)
    have "(workout_type, class_name self)
        \<in> {(''SWM'', ''Swimming''), (''RUN'', ''Running''), (''WLK'', ''SportsWalking'')}"
      using r by (rule read_package_class)
    with t show ?thesis by auto
  qed
  from swm run wlk every show ?thesis by blast
qed

text \<open>The three packages of the script: each report carries the name of the class.\<close>

theorem report_label_witness:
  "(1::real) \<noteq> 0 \<and> (180::real) \<noteq> 0
   \<and> read_package ''SWM'' [720, 1, 80, 25, 40] = Inr (Swimming 720 1 80 25 40)
   \<and> show_training_info (Swimming 720 1 80 25 40)
       = Inr \<lparr>training_type = ''Swimming'', duration = 1, distance = 0.9936,
              speed = 1, calories = 336\<rparr>
   \<and> ''Swimming'' = class_name (Swimming 720 1 80 25 40)
   \<and> ''Swimming'' \<noteq> ''SWM''
   \<and> (\<exists>self info. read_package ''RUN'' [720, 1, 80] = Inr self
          \<and> show_training_info self = Inr info \<and> training_type info = ''Running'')
   \<and> (\<exists>self info. read_package ''WLK'' [720, 1, 80, 180] = Inr self
          \<and> show_training_info self = Inr info
          \<and> training_type info = ''SportsWalking'')"
proof -
  have d: "(1::real) \<noteq> 0" by simp
  have h: "(180::real) \<noteq> 0" by simp
  have r: "read_package ''SWM'' [720, 1, 80, 25, 40] = Inr (Swimming 720 1 80 25 40)"
    by (simp add: read_package_def data_of_training_def)
  have i: "show_training_info (Swimming 720 1 80 25 40)
       = Inr \<lparr>training_type = ''Swimming'', duration = 1, distance = 0.9936,
              speed = 1, calories = 336\<rparr>"
    by (simp add: show_training_info_def get_distance_def truediv_def class_constants)
  note all = report_label [OF d h, of 720 80 25 40]
  from all have run: "\<exists>self info. read_package ''RUN'' [720, 1, 80] = Inr self
          \<and> show_training_info self = Inr info \<and> training_type info = ''Running''"
    by blast
  from all have wlk: "\<exists>self info. read_package ''WLK'' [720, 1, 80, 180] = Inr self
          \<and> show_training_info self = Inr info
          \<and> training_type info = ''SportsWalking''"
    by blast
  from all r i have "training_type \<lparr>training_type = ''Swimming'', duration = 1,
        distance = 0.9936, speed = 1, calories = 336\<rparr> = class_name (Swimming 720 1 80 25 40)
     \<and> training_type \<lparr>training_type = ''Swimming'', duration = 1,
        distance = 0.9936, speed = 1, calories = 336\<rparr> \<noteq> ''SWM''"
    by blast
  then have lab: "''Swimming'' = class_name (Swimming 720 1 80 25 40)
      \<and> ''Swimming'' \<noteq> ''SWM''"
    by simp
  from d h r i lab run wlk show ?thesis by blast
qed

end
